theory Spec2Isabelle
  imports Complex_Main "HOL-Library.Char_ord" "HOL-Library.List_Lexorder"
begin

text \<open>
  A shallow embedding of the pipeline replication and webhook dispatch engine: the replicator
  with its deployer and result processor (concourse/replicator.py), the label policy and the
  resource polling of the webhook dispatcher (whd/pull_request.py), the composite component
  descriptor lookup (cnudie/retrieve.py) and the replication of OCI artifacts
  (oci/__init__.py). Calls to code outside these files are parameters of the definitions;
  every exception the modelled code raises or lets through is a value of the result.
\<close>

unbundle bit_operations_syntax

section \<open>concourse/replicator.py: data model\<close>

text \<open>
  The classes of Python exceptions the replicator distinguishes. The source compares
  classes by identity (\<^verbatim>\<open>type(e) in ignore_exceptions\<close>), so a class and its
  subclasses are different values here, as they are different class objects there.
\<close>

datatype exc_class =
    ArithmeticError | ZeroDivisionError
  | AttributeError | BufferError | EOFError
  | ImportError | ModuleNotFoundError
  | MemoryError | NameError
  | OSError | FileNotFoundError | ConnectionError
  | ReferenceError | RecursionError | RuntimeError
  | SyntaxError | TypeError | ValueError | KeyError
  | NotImplementedError | HTTPError | OciImageNotFoundException
  | OtherException string

text \<open>
  \<^verbatim>\<open>DefinitionDescriptor\<close> is declared in concourse/enumerator.py; the replicator
  reads the attributes below. \<^verbatim>\<open>concourse_target_key()\<close> is taken to be the pair of
  the backend configuration's name and the team, which is also what selects the API client in
  \<^verbatim>\<open>process_results\<close>.
\<close>

record definition_descriptor =
  pipeline_name :: string
  concourse_target_cfg_name :: string
  concourse_target_team :: string
  exception :: "exc_class option"
  pipeline :: string

type_synonym target_key = "string \<times> string"

definition concourse_target_key :: "definition_descriptor \<Rightarrow> target_key" where
  "concourse_target_key d = (concourse_target_cfg_name d, concourse_target_team d)"

datatype render_status = RenderSUCCEEDED | RenderFAILED

text \<open>\<^verbatim>\<open>error_details\<close> holds a formatted traceback, a message, or (for an
  enumeration error) the exception object itself.\<close>

datatype details = Message string | Traceback exc_class | ExceptionObject exc_class

record render_result =
  rr_definition_descriptor :: definition_descriptor
  rr_render_status :: render_status
  rr_error_details :: "details option"
  rr_exception :: "exc_class option"

text \<open>\<^verbatim>\<open>class DeployStatus(IntEnum)\<close>: a bit field over Python's unbounded integers.\<close>

definition SUCCEEDED :: int where "SUCCEEDED = 1"
definition FAILED :: int where "FAILED = 2"
definition SKIPPED :: int where "SKIPPED = 4"
definition CREATED :: int where "CREATED = 8"

record deploy_result =
  dr_definition_descriptor :: definition_descriptor
  deploy_status :: int
  error_details :: "details option"

section \<open>concourse/replicator.py: Renderer.render\<close>

text \<open>
  \<^verbatim>\<open>Renderer._render\<close> calls the template engine and the definition factory, which are
  outside the repository's files: it is a parameter, returning the rendered descriptor or
  the exception it raised. \<^verbatim>\<open>Renderer.render\<close> wraps it as the source does.
\<close>

definition render ::
  "(definition_descriptor \<Rightarrow> exc_class + definition_descriptor) \<Rightarrow>
   definition_descriptor \<Rightarrow> render_result" where
  "render render_impl d =
     (case render_impl d of
        Inr d' \<Rightarrow>
          \<lparr>rr_definition_descriptor = d', rr_render_status = RenderSUCCEEDED,
           rr_error_details = None, rr_exception = None\<rparr>
      | Inl e \<Rightarrow>
          \<lparr>rr_definition_descriptor = d, rr_render_status = RenderFAILED,
           rr_error_details = Some (Traceback e), rr_exception = Some e\<rparr>)"

section \<open>concourse/replicator.py: PipelineReplicator\<close>

text \<open>
  The replicator's collaborators (preprocessor, renderer, deployer) and its mutable state:
  the set of accepted pipeline names, and a log of the descriptors handed to the deployer.
\<close>

record replicator =
  descriptor_preprocessor :: "definition_descriptor \<Rightarrow> definition_descriptor"
  definition_renderer :: "definition_descriptor \<Rightarrow> exc_class + definition_descriptor"
  definition_deployer :: "definition_descriptor \<Rightarrow> deploy_result"

record replicator_state =
  pipeline_names :: "string set"
  deploy_calls :: "definition_descriptor list"

text \<open>
  \<^verbatim>\<open>_pipeline_name_conflict\<close>: the whole body runs under
  \<^verbatim>\<open>with self._pipeline_names_lock\<close>, so the membership test and the insertion are one
  step on the name set. It returns True on a conflict and None (falsy) otherwise.
\<close>

definition pipeline_name_conflict ::
  "string set \<Rightarrow> definition_descriptor \<Rightarrow> bool \<times> string set" where
  "pipeline_name_conflict names d =
     (if pipeline_name d \<in> names then (True, names)
      else (False, insert (pipeline_name d) names))"

definition duplicate_message :: "string \<Rightarrow> details" where
  "duplicate_message n = Message (''duplicate pipeline name: '' @ n)"

definition process_definition_descriptor ::
  "replicator \<Rightarrow> replicator_state \<Rightarrow> definition_descriptor \<Rightarrow>
   deploy_result \<times> replicator_state" where
  "process_definition_descriptor self st d =
     (case exception d of
        Some e \<Rightarrow>
          (\<lparr>dr_definition_descriptor = d, deploy_status = SKIPPED,
            error_details = Some (ExceptionObject e)\<rparr>, st)
      | None \<Rightarrow>
         (let preprocessed = descriptor_preprocessor self d;
              result = render (definition_renderer self) preprocessed;
              (conflict, names') =
                 pipeline_name_conflict (pipeline_names st) (rr_definition_descriptor result)
          in if conflict then
               (\<lparr>dr_definition_descriptor = d, deploy_status = SKIPPED,
                 error_details =
                   Some (duplicate_message (pipeline_name (rr_definition_descriptor result)))\<rparr>,
                st)
             else if rr_render_status result = RenderSUCCEEDED then
               (definition_deployer self (rr_definition_descriptor result),
                st\<lparr>pipeline_names := names',
                   deploy_calls := deploy_calls st @ [rr_definition_descriptor result]\<rparr>)
             else
               (\<lparr>dr_definition_descriptor = d, deploy_status = SKIPPED,
                 error_details = rr_error_details result\<rparr>,
                st\<lparr>pipeline_names := names'\<rparr>)))"

text \<open>
  \<^verbatim>\<open>_replicate\<close> maps \<^verbatim>\<open>_process_definition_descriptor\<close> over the descriptors on a
  pool of 16 threads. The only state the workers share is the name set, and each worker
  touches it in one locked step, so a run is described by the order in which the workers
  pass that step: \<open>replicate_run\<close> processes the descriptors in that order.
\<close>

fun replicate_run ::
  "replicator \<Rightarrow> replicator_state \<Rightarrow> definition_descriptor list \<Rightarrow>
   deploy_result list \<times> replicator_state" where
  "replicate_run self st [] = ([], st)"
| "replicate_run self st (d # ds) =
     (let (r, st') = process_definition_descriptor self st d;
          (rs, st'') = replicate_run self st' ds
      in (r # rs, st''))"

definition initial_state :: replicator_state where
  "initial_state = \<lparr>pipeline_names = {}, deploy_calls = []\<rparr>"

text \<open>The pipeline name a descriptor produces: the one the duplicate check reads.\<close>

definition produced_name :: "replicator \<Rightarrow> definition_descriptor \<Rightarrow> string" where
  "produced_name self d =
     pipeline_name (rr_definition_descriptor
       (render (definition_renderer self) (descriptor_preprocessor self d)))"

definition dup_skip :: "replicator \<Rightarrow> definition_descriptor \<Rightarrow> deploy_result" where
  "dup_skip self d =
     \<lparr>dr_definition_descriptor = d, deploy_status = SKIPPED,
      error_details = Some (duplicate_message (produced_name self d))\<rparr>"

text \<open>What the deploy log satisfies along a run: no name is deployed twice, and every
  deployed name was accepted.\<close>

definition deploy_inv :: "replicator_state \<Rightarrow> bool" where
  "deploy_inv st \<longleftrightarrow>
     distinct (map pipeline_name (deploy_calls st)) \<and>
     (\<forall>d \<in> set (deploy_calls st). pipeline_name d \<in> pipeline_names st)"

section \<open>concourse/replicator.py: ConcourseDeployer.deploy\<close>

text \<open>
  The backend's REST client (\<^verbatim>\<open>ccc.concourse\<close>, \<^verbatim>\<open>concourse.client\<close>) is outside the
  repository's files. A call either returns, raises \<^verbatim>\<open>requests.exceptions.HTTPError\<close>
  with the response's status code and body, or raises something else. The deployer's
  calls are logged in order.
\<close>

datatype set_pipeline_result = SetCREATED | SetUPDATED | SetOTHER

datatype 'a api_outcome = Returns 'a | RaisesHTTPError int string | Raises exc_class

datatype api_call =
    SetPipeline string string
  | Sleep nat
  | UnpausePipeline string
  | ExposePipeline string
  | DeletePipeline string
  | TriggerResourceCheck string string
  | OrderPipelines "string list"

record concourse_deployer =
  unpause_pipelines :: bool
  unpause_new_pipelines :: bool
  expose_pipelines :: bool

text \<open>
  \<open>set_pipeline_outcome env k\<close> is what the \<open>k\<close>-th call of \<^verbatim>\<open>set_pipeline\<close> does
  (counting from 0); \<open>random_source\<close> is the state of the random number generator.
\<close>

record deploy_env =
  client_from_cfg_name :: "string \<Rightarrow> string \<Rightarrow> exc_class option"
  set_pipeline_outcome :: "nat \<Rightarrow> set_pipeline_result api_outcome"
  unpause_pipeline_raises :: "exc_class option"
  expose_pipeline_raises :: "exc_class option"
  random_source :: nat

text \<open>\<^verbatim>\<open>random.randrange(start, stop)\<close> picks a member of \<^verbatim>\<open>range(start, stop)\<close>:
  an integer from \<open>start\<close> up to, and not including, \<open>stop\<close>.\<close>

definition randrange :: "nat \<Rightarrow> nat \<Rightarrow> nat \<Rightarrow> nat" where
  "randrange start stop r = start + r mod (stop - start)"

definition err_content :: string where
  "err_content = ''failed to save config: comparison with existing config failed during save''"

definition failed_result :: "definition_descriptor \<Rightarrow> exc_class \<Rightarrow> deploy_result" where
  "failed_result d e =
     \<lparr>dr_definition_descriptor = d, deploy_status = FAILED, error_details = Some (Traceback e)\<rparr>"

text \<open>The part of \<^verbatim>\<open>deploy\<close> after \<^verbatim>\<open>set_pipeline\<close> has returned \<open>response\<close>:
  unpause, expose, compose the status. \<open>calls\<close> are the calls made so far.\<close>

definition finish_deploy ::
  "concourse_deployer \<Rightarrow> deploy_env \<Rightarrow> definition_descriptor \<Rightarrow> set_pipeline_result \<Rightarrow>
   api_call list \<Rightarrow> deploy_result \<times> api_call list" where
  "finish_deploy self env d response calls =
     (let n = pipeline_name d;
          unpause = (if unpause_pipelines self then True
                     else if unpause_new_pipelines self \<and> response = SetCREATED then True
                     else False);
          calls1 = (if unpause then calls @ [UnpausePipeline n] else calls)
      in case (if unpause then unpause_pipeline_raises env else None) of
           Some e \<Rightarrow> (failed_result d e, calls1)
         | None \<Rightarrow>
            (let calls2 = (if expose_pipelines self then calls1 @ [ExposePipeline n] else calls1)
             in case (if expose_pipelines self then expose_pipeline_raises env else None) of
                  Some e \<Rightarrow> (failed_result d e, calls2)
                | None \<Rightarrow>
                   (case response of
                      SetCREATED \<Rightarrow>
                        (\<lparr>dr_definition_descriptor = d, deploy_status = SUCCEEDED OR CREATED,
                          error_details = None\<rparr>, calls2)
                    | SetUPDATED \<Rightarrow>
                        (\<lparr>dr_definition_descriptor = d, deploy_status = SUCCEEDED,
                          error_details = None\<rparr>, calls2)
                    | SetOTHER \<Rightarrow> (failed_result d NotImplementedError, calls2))))"

definition deploy ::
  "concourse_deployer \<Rightarrow> deploy_env \<Rightarrow> definition_descriptor \<Rightarrow>
   deploy_result \<times> api_call list" where
  "deploy self env d =
     (let n = pipeline_name d; body = pipeline d
      in case client_from_cfg_name env (concourse_target_cfg_name d) (concourse_target_team d) of
           Some e \<Rightarrow> (failed_result d e, [])
         | None \<Rightarrow>
            (case set_pipeline_outcome env 0 of
               Returns response \<Rightarrow> finish_deploy self env d response [SetPipeline n body]
             | Raises e \<Rightarrow> (failed_result d e, [SetPipeline n body])
             | RaisesHTTPError status_code content \<Rightarrow>
                 if status_code = 500 \<and> content = err_content then
                   (let calls = [SetPipeline n body,
                                 Sleep (randrange 5 30 (random_source env)),
                                 SetPipeline n body]
                    in case set_pipeline_outcome env 1 of
                         Returns response \<Rightarrow> finish_deploy self env d response calls
                       | Raises e \<Rightarrow> (failed_result d e, calls)
                       | RaisesHTTPError s c \<Rightarrow> (failed_result d HTTPError, calls))
                 else (failed_result d HTTPError, [SetPipeline n body])))"



section \<open>concourse/replicator.py: ReplicationResultProcessor\<close>

record result_processor =
  rp_unpause_new_pipelines :: bool
  remove_pipelines :: bool
  remove_pipelines_filter :: "(string \<Rightarrow> bool) option"
  reorder_pipelines :: bool

text \<open>\<^verbatim>\<open>__init__\<close>: \<open>no_cleanup\<close> says that a job mapping is given and its cleanup
  policy is \<^verbatim>\<open>NO_CLEANUP\<close>.\<close>

definition new_result_processor ::
  "bool \<Rightarrow> bool \<Rightarrow> (string \<Rightarrow> bool) option \<Rightarrow> bool \<Rightarrow> bool \<Rightarrow> result_processor" where
  "new_result_processor unpause_new rm rm_filter reorder no_cleanup =
     \<lparr>rp_unpause_new_pipelines = unpause_new,
      remove_pipelines = (if no_cleanup then False else rm),
      remove_pipelines_filter = rm_filter,
      reorder_pipelines = reorder\<rparr>"

text \<open>
  Modelled from the spec: the CI backend client, which is not among the repository's files
  (\<^verbatim>\<open>pipelines() \<rightarrow> [name]\<close>; \<^verbatim>\<open>delete_pipeline(name)\<close>;
  \<^verbatim>\<open>pipeline_resources(pipelines) \<rightarrow> [resource]\<close>). A backend is selected by its
  target key; it holds the pipelines that exist on it and the resources of each.
\<close>

record concourse_world =
  pipelines_on :: "target_key \<Rightarrow> string list"
  pipeline_resources :: "target_key \<Rightarrow> string \<Rightarrow> string list"

definition succeeded_bit :: "deploy_result \<Rightarrow> bool" where
  "succeeded_bit r \<longleftrightarrow> deploy_status r AND SUCCEEDED \<noteq> 0"

definition created_bit :: "deploy_result \<Rightarrow> bool" where
  "created_bit r \<longleftrightarrow> deploy_status r AND CREATED \<noteq> 0"

definition result_name :: "deploy_result \<Rightarrow> string" where
  "result_name r = pipeline_name (dr_definition_descriptor r)"

definition result_key :: "deploy_result \<Rightarrow> target_key" where
  "result_key r = concourse_target_key (dr_definition_descriptor r)"

text \<open>The names \<^verbatim>\<open>process_results\<close> deletes on one backend. The source iterates over
  a Python set, whose order is not specified; the list here follows the backend's listing,
  and the properties below depend on its members only.\<close>

definition pipelines_to_remove ::
  "result_processor \<Rightarrow> string list \<Rightarrow> deploy_result list \<Rightarrow> string list" where
  "pipelines_to_remove self existing concourse_results =
     (let deployed_pipeline_names = set (map result_name concourse_results);
          to_remove = filter (\<lambda>n. n \<notin> deployed_pipeline_names) (remdups existing)
      in case remove_pipelines_filter self of
           None \<Rightarrow> to_remove
         | Some f \<Rightarrow> filter (\<lambda>n. \<not> f n) to_remove)"

definition initialise_new_pipeline_resources ::
  "result_processor \<Rightarrow> (string \<Rightarrow> string list) \<Rightarrow> deploy_result list \<Rightarrow> api_call list" where
  "initialise_new_pipeline_resources self resources results =
     (let newly_deployed_pipeline_names = map result_name (filter created_bit results)
      in concat (map (\<lambda>n. (if rp_unpause_new_pipelines self then [UnpausePipeline n] else [])
                             @ map (TriggerResourceCheck n) (resources n))
                     newly_deployed_pipeline_names))"

text \<open>The body of the loop over the targets, for the target \<open>k\<close> and its results.\<close>

definition process_target ::
  "result_processor \<Rightarrow> concourse_world \<Rightarrow> target_key \<Rightarrow> deploy_result list \<Rightarrow>
   concourse_world \<times> api_call list" where
  "process_target self w k concourse_results =
     (let doomed = (if remove_pipelines self
                    then pipelines_to_remove self (pipelines_on w k) concourse_results
                    else []);
          w' = w\<lparr>pipelines_on :=
                   (pipelines_on w)(k := filter (\<lambda>n. n \<notin> set doomed) (pipelines_on w k))\<rparr>;
          init = initialise_new_pipeline_resources self (pipeline_resources w' k)
                   concourse_results;
          reorder = (if reorder_pipelines self
                     then [OrderPipelines (sort (pipelines_on w' k))] else [])
      in (w', map DeletePipeline doomed @ init @ reorder))"

fun process_targets ::
  "result_processor \<Rightarrow> concourse_world \<Rightarrow> deploy_result list \<Rightarrow> target_key list \<Rightarrow>
   concourse_world \<times> (target_key \<times> api_call) list" where
  "process_targets self w results [] = (w, [])"
| "process_targets self w results (k # ks) =
     (let (w', cs) = process_target self w k (filter (\<lambda>r. result_key r = k) results);
          (w'', cs') = process_targets self w' results ks
      in (w'', map (Pair k) cs @ cs'))"

text \<open>The keys of a Python dict, in insertion order: each key where it first occurs.\<close>

definition target_keys :: "deploy_result list \<Rightarrow> target_key list" where
  "target_keys results = rev (remdups (rev (map result_key results)))"

definition ignore_exceptions :: "exc_class list" where
  "ignore_exceptions =
     [ArithmeticError, AttributeError, BufferError, EOFError, ImportError, MemoryError,
      NameError, OSError, ReferenceError, RecursionError, SyntaxError, TypeError]"

definition should_notify_pipeline_owners :: "deploy_result \<Rightarrow> bool" where
  "should_notify_pipeline_owners r =
     (if deploy_status r AND SUCCEEDED \<noteq> 0 then False
      else case exception (dr_definition_descriptor r) of
             Some c \<Rightarrow> (if c \<in> set ignore_exceptions then False else True)
           | None \<Rightarrow> True)"

text \<open>
  The loop over the failed results. \<open>notify r\<close> says whether
  \<^verbatim>\<open>_notify_broken_definition_owners\<close> returns (True) or raises (False) for \<open>r\<close>.
  Where \<^verbatim>\<open>should_notify_pipeline_owners\<close> is false, the source formats a log line that
  reads \<^verbatim>\<open>failed_descriptor.pipeline_name\<close>; \<^verbatim>\<open>failed_descriptor\<close> is a
  \<^verbatim>\<open>DeployResult\<close>, a frozen dataclass with the fields \<^verbatim>\<open>definition_descriptor\<close>,
  \<^verbatim>\<open>deploy_status\<close> and \<^verbatim>\<open>error_details\<close>, so reading the attribute raises
  \<^verbatim>\<open>AttributeError\<close>, outside any \<^verbatim>\<open>try\<close>. The result is what the loop returns or
  raises, and the results for which the owners' notification was attempted.
\<close>

fun notify_failed ::
  "(deploy_result \<Rightarrow> bool) \<Rightarrow> deploy_result list \<Rightarrow> bool \<Rightarrow>
   (exc_class + bool) \<times> deploy_result list" where
  "notify_failed notify [] all_notifications_succeeded = (Inr all_notifications_succeeded, [])"
| "notify_failed notify (fd # fds) all_notifications_succeeded =
     (if \<not> should_notify_pipeline_owners fd then (Inl AttributeError, [])
      else (let (res, attempted) =
                  notify_failed notify fds (all_notifications_succeeded \<and> notify fd)
            in (res, fd # attempted)))"

record process_outcome =
  returned :: "exc_class + bool"
  processor :: result_processor
  world :: concourse_world
  api_calls :: "(target_key \<times> api_call) list"
  notified :: "deploy_result list"

definition process_results ::
  "result_processor \<Rightarrow> (deploy_result \<Rightarrow> bool) \<Rightarrow> concourse_world \<Rightarrow> deploy_result list \<Rightarrow>
   process_outcome" where
  "process_results self notify w results =
     (let failed_descriptors = filter (\<lambda>d. \<not> (deploy_status d AND SUCCEEDED \<noteq> 0)) results;
          failed_count = length failed_descriptors;
          self' = (if failed_count > 0 then self\<lparr>remove_pipelines := False\<rparr> else self);
          (w', calls) = process_targets self' w results (target_keys results)
      in if failed_count = 0 then
           \<lparr>returned = Inr True, processor = self', world = w', api_calls = calls,
            notified = []\<rparr>
         else
           (let (res, attempted) = notify_failed notify failed_descriptors True
            in \<lparr>returned = res, processor = self', world = w', api_calls = calls,
                notified = attempted\<rparr>))"

section \<open>whd/pull_request.py: the label policy\<close>

text \<open>\<^verbatim>\<open>str.split(sep)\<close> for a separator of one character: the pieces between the
  separators; at least one piece, which may be empty.\<close>

fun split_on :: "char \<Rightarrow> string \<Rightarrow> string list" where
  "split_on sep [] = [[]]"
| "split_on sep (c # cs) =
     (if c = sep then [] # split_on sep cs
      else (case split_on sep cs of
              p # ps \<Rightarrow> (c # p) # ps
            | [] \<Rightarrow> [[c]]))"

text \<open>
  \<^verbatim>\<open>iter_trusted_teams_for_hostname\<close> is a generator, consumed by \<^verbatim>\<open>list(...)\<close>: the
  result is the list of the teams it yields, or the \<^verbatim>\<open>ValueError\<close> it raises on an entry
  that has neither two nor three parts.
\<close>

fun iter_trusted_teams_for_hostname :: "string list \<Rightarrow> string \<Rightarrow> exc_class + string list" where
  "iter_trusted_teams_for_hostname [] hostname = Inr []"
| "iter_trusted_teams_for_hostname (trusted_team # rest) hostname =
     (case split_on CHR ''/'' trusted_team of
        [org, team] \<Rightarrow>
          (case iter_trusted_teams_for_hostname rest hostname of
             Inl e \<Rightarrow> Inl e
           | Inr ts \<Rightarrow> Inr (trusted_team # ts))
      | [host, org, team] \<Rightarrow>
          (if \<not> host = hostname then iter_trusted_teams_for_hostname rest hostname
           else (case iter_trusted_teams_for_hostname rest hostname of
                   Inl e \<Rightarrow> Inl e
                 | Inr ts \<Rightarrow> Inr ((org @ ''/'' @ team) # ts)))
      | _ \<Rightarrow> Inl ValueError)"

text \<open>The membership queries of \<^verbatim>\<open>GitHubRepositoryHelper\<close> (their code is not among the
  repository's files): \<open>is_team_member team user\<close>, \<open>is_org_member organisation user\<close>.\<close>

record github_helper =
  is_team_member :: "string \<Rightarrow> string \<Rightarrow> bool"
  is_org_member :: "string \<Rightarrow> string \<Rightarrow> bool"

text \<open>\<^verbatim>\<open>_should_label\<close>; \<open>job_mapping_trusted_teams\<close> is
  \<^verbatim>\<open>job_mapping.trusted_teams()\<close>.\<close>

definition should_label ::
  "string list \<Rightarrow> github_helper \<Rightarrow> string \<Rightarrow> string \<Rightarrow> string \<Rightarrow> exc_class + bool" where
  "should_label job_mapping_trusted_teams helper sender_login owner github_hostname =
     (case iter_trusted_teams_for_hostname job_mapping_trusted_teams github_hostname of
        Inl e \<Rightarrow> Inl e
      | Inr trusted_teams \<Rightarrow>
          if trusted_teams \<noteq> [] then
            (if list_ex (\<lambda>team. is_team_member helper team sender_login) trusted_teams
             then Inr True else Inr False)
          else if is_org_member helper owner sender_login then Inr True
          else Inr False)"

datatype pull_request_action = OPENED | REOPENED | LABELED | SYNCHRONIZE | OTHER_ACTION

record pull_request_event =
  action :: pull_request_action
  number :: nat
  sender_login :: string
  repository_path :: string
  hostname :: string
  label :: string
  label_names :: "string list"

text \<open>A pull-request resource of a pipeline: \<open>source_label\<close> is
  \<^verbatim>\<open>resource.source.get('label')\<close>.\<close>

record pr_resource =
  resource_name :: string
  resource_pipeline_name :: string
  source_label :: "string option"
  failing_to_check :: bool

datatype github_call =
    AddLabelsToPullRequest nat "string list"
  | AddMissingLabelsComment nat string "string list"

definition is_add_labels :: "github_call \<Rightarrow> bool" where
  "is_add_labels c = (case c of AddLabelsToPullRequest n ls \<Rightarrow> True | _ \<Rightarrow> False)"

text \<open>The labels the resources require: a Python set, here without repetitions in the
  order of the resources.\<close>

definition required_labels_of :: "pr_resource list \<Rightarrow> string list" where
  "required_labels_of resources =
     remdups (concat (map (\<lambda>r. case source_label r of Some l \<Rightarrow> [l] | None \<Rightarrow> []) resources))"

text \<open>The loop over the job mapping sets: each either yields a job mapping for the repository
  (given by its trusted teams) or none; the first one found is used, and
  \<^verbatim>\<open>ValueError\<close> is raised when there is none.\<close>

fun find_job_mapping :: "string list option list \<Rightarrow> exc_class + string list" where
  "find_job_mapping [] = Inl ValueError"
| "find_job_mapping (None # jms) = find_job_mapping jms"
| "find_job_mapping (Some job_mapping # jms) = Inr job_mapping"

definition set_pr_labels ::
  "pull_request_event \<Rightarrow> github_helper \<Rightarrow> string list option list \<Rightarrow> pr_resource list \<Rightarrow>
   (exc_class + bool) \<times> github_call list" where
  "set_pr_labels pr_event helper job_mapping_sets resources =
     (let required_labels = required_labels_of resources
      in if required_labels = [] then (Inr True, [])
         else
          (case split_on CHR ''/'' (repository_path pr_event) of
             [owner, repo_name] \<Rightarrow>
              (case find_job_mapping job_mapping_sets of
                 Inl e \<Rightarrow> (Inl e, [])
               | Inr job_mapping \<Rightarrow>
                  (if action pr_event = OPENED then
                     (case should_label job_mapping helper (sender_login pr_event) owner
                             (hostname pr_event) of
                        Inl e \<Rightarrow> (Inl e, [])
                      | Inr True \<Rightarrow>
                          (Inr True, [AddLabelsToPullRequest (number pr_event) required_labels])
                      | Inr False \<Rightarrow>
                          (Inr False,
                           [AddMissingLabelsComment (number pr_event) (sender_login pr_event)
                              required_labels]))
                   else if action pr_event = SYNCHRONIZE then
                     (case should_label job_mapping helper (sender_login pr_event) owner
                             (hostname pr_event) of
                        Inl e \<Rightarrow> (Inl e, [])
                      | Inr True \<Rightarrow>
                          (Inr True, [AddLabelsToPullRequest (number pr_event) required_labels])
                      | Inr False \<Rightarrow> (Inr False, []))
                   else if action pr_event = LABELED then
                     (if label pr_event \<in> set [''lgtm'', ''reviewed/lgtm'']
                      then (Inr True,
                            [AddLabelsToPullRequest (number pr_event) required_labels])
                      else (Inr False, []))
                   else (Inr False, [])))
           | _ \<Rightarrow> (Inl ValueError, [])))"

section \<open>whd/pull_request.py: ensure_pr_resource_updates\<close>

text \<open>\<^verbatim>\<open>str(n)\<close> for a natural number.\<close>

fun digit_char :: "nat \<Rightarrow> char" where
  "digit_char n = char_of (48 + n)"

function str_of_nat :: "nat \<Rightarrow> string" where
  "str_of_nat n = (if n < 10 then [digit_char n] else str_of_nat (n div 10) @ [digit_char (n mod 10)])"
  by pat_completeness auto
termination
  by (relation "measure id") auto

text \<open>\<open>is_up_to_date\<close>: \<open>pr_numbers\<close> are the \<^verbatim>\<open>version()['pr']\<close> entries of the
  resource's versions.\<close>

definition is_up_to_date :: "pull_request_event \<Rightarrow> pr_resource \<Rightarrow> string list \<Rightarrow> bool" where
  "is_up_to_date pr_event resource pr_numbers =
     (case source_label resource of
        Some require_label \<Rightarrow>
          if require_label \<noteq> [] \<and> require_label \<notin> set (label_names pr_event) then True
          else str_of_nat (number pr_event) \<in> set pr_numbers
      | None \<Rightarrow> str_of_nat (number pr_event) \<in> set pr_numbers)"

datatype poll_event =
    SleepFor rat
  | GivingUp "string list"
  | TriggerCheck "string list"

text \<open>
  A run of \<^verbatim>\<open>ensure_pr_resource_updates\<close> either returns, or is still recursing when
  the fuel (the number of invocations followed) is used up; both carry the events so far.
\<close>

datatype ensure_run = Returned "poll_event list" | OutOfFuel "poll_event list"

fun prepend :: "poll_event list \<Rightarrow> ensure_run \<Rightarrow> ensure_run" where
  "prepend evs (Returned l) = Returned (evs @ l)"
| "prepend evs (OutOfFuel l) = OutOfFuel (evs @ l)"

text \<open>
  \<open>resource_versions t r\<close> is what the backend answers for the resource \<open>r\<close> at the
  \<open>t\<close>-th invocation. Every invocation sleeps, decrements \<open>retries\<close>, logs that it gives
  up when \<open>retries\<close> has become negative, and goes on: the source has no \<^verbatim>\<open>return\<close>
  after that log line. The seconds are exact rationals (the source's are floats).
\<close>

fun ensure_pr_resource_updates ::
  "nat \<Rightarrow> (nat \<Rightarrow> pr_resource \<Rightarrow> string list) \<Rightarrow> pull_request_event \<Rightarrow> nat \<Rightarrow>
   pr_resource list \<Rightarrow> int \<Rightarrow> rat \<Rightarrow> ensure_run" where
  "ensure_pr_resource_updates 0 resource_versions pr_event t resources retries sleep_seconds =
     OutOfFuel []"
| "ensure_pr_resource_updates (Suc fuel) resource_versions pr_event t resources retries
       sleep_seconds =
     (let retries' = retries - 1;
          evs = [SleepFor sleep_seconds]
                @ (if retries' < 0 then [GivingUp (map resource_name resources)] else []);
          outdated_resources =
            filter (\<lambda>resource. failing_to_check resource
                       \<or> \<not> is_up_to_date pr_event resource (resource_versions t resource))
                   resources
      in if outdated_resources = [] then Returned evs
         else prepend (evs @ [TriggerCheck (map resource_name outdated_resources)])
                (ensure_pr_resource_updates fuel resource_versions pr_event (Suc t)
                   outdated_resources retries' (sleep_seconds * (6 / 5))))"

definition events_of :: "ensure_run \<Rightarrow> poll_event list" where
  "events_of run = (case run of Returned l \<Rightarrow> l | OutOfFuel l \<Rightarrow> l)"

definition has_returned :: "ensure_run \<Rightarrow> bool" where
  "has_returned run = (case run of Returned l \<Rightarrow> True | OutOfFuel l \<Rightarrow> False)"

definition is_sleep_for :: "poll_event \<Rightarrow> bool" where
  "is_sleep_for e = (case e of SleepFor s \<Rightarrow> True | _ \<Rightarrow> False)"

text \<open>The number of polling iterations of a run: each invocation sleeps once.\<close>

definition iterations :: "ensure_run \<Rightarrow> nat" where
  "iterations run = length (filter is_sleep_for (events_of run))"

section \<open>cnudie/retrieve.py: composite_component_descriptor_lookup\<close>

text \<open>
  What one layer's lookup does: it returns a component descriptor, \<^verbatim>\<open>None\<close>, a
  \<^verbatim>\<open>WriteBack\<close> or something else, or it raises \<^verbatim>\<open>OciImageNotFoundException\<close> or
  another exception. A layer is a function of the component id and the optional repository
  context (\<open>None\<close> where the source calls \<^verbatim>\<open>lookup(component_id)\<close>).
\<close>

datatype ('cd, 'wb) lookup_result =
    Descriptor 'cd
  | NoneResult
  | WriteBackResult 'wb
  | OtherValue
  | RaisesNotFound
  | RaisesOther exc_class

datatype 'cd composite_result = Found 'cd | Absent | Raised exc_class

text \<open>\<^verbatim>\<open>for wb in writebacks: wb(component_id, res)\<close>: \<open>invoke wb cid cd\<close> is the
  exception the write-back raises, if any. The invocations are logged. The component id is
  taken as \<^verbatim>\<open>cnudie.util.to_component_id\<close> has normalised it.\<close>

fun run_writebacks ::
  "('wb \<Rightarrow> 'cid \<Rightarrow> 'cd \<Rightarrow> exc_class option) \<Rightarrow> 'wb list \<Rightarrow> 'cid \<Rightarrow> 'cd \<Rightarrow>
   exc_class option \<times> ('wb \<times> 'cid \<times> 'cd) list" where
  "run_writebacks invoke [] cid cd = (None, [])"
| "run_writebacks invoke (wb # wbs) cid cd =
     (case invoke wb cid cd of
        Some e \<Rightarrow> (Some e, [(wb, cid, cd)])
      | None \<Rightarrow>
          (let (r, evs) = run_writebacks invoke wbs cid cd
           in (r, (wb, cid, cd) # evs)))"

fun composite_lookup ::
  "('wb \<Rightarrow> 'cid \<Rightarrow> 'cd \<Rightarrow> exc_class option) \<Rightarrow>
   ('cid \<Rightarrow> 'ctx option \<Rightarrow> ('cd, 'wb) lookup_result) list \<Rightarrow>
   'cid \<Rightarrow> 'ctx option \<Rightarrow> bool \<Rightarrow> 'wb list \<Rightarrow>
   'cd composite_result \<times> ('wb \<times> 'cid \<times> 'cd) list" where
  "composite_lookup invoke [] component_id ctx_repo absent_ok writebacks =
     (if absent_ok then (Absent, [])
      else (case ctx_repo of
              None \<Rightarrow> (Raised AttributeError, [])
            | Some c \<Rightarrow> (Raised OciImageNotFoundException, [])))"
| "composite_lookup invoke (lookup # lookups) component_id ctx_repo absent_ok writebacks =
     (case lookup component_id ctx_repo of
        RaisesOther e \<Rightarrow> (Raised e, [])
      | RaisesNotFound \<Rightarrow>
          composite_lookup invoke lookups component_id ctx_repo absent_ok writebacks
      | Descriptor res \<Rightarrow>
          (case run_writebacks invoke writebacks component_id res of
             (Some e, evs) \<Rightarrow> (Raised e, evs)
           | (None, evs) \<Rightarrow> (Found res, evs))
      | NoneResult \<Rightarrow>
          composite_lookup invoke lookups component_id ctx_repo absent_ok writebacks
      | WriteBackResult wb \<Rightarrow>
          composite_lookup invoke lookups component_id ctx_repo absent_ok (writebacks @ [wb])
      | OtherValue \<Rightarrow>
          composite_lookup invoke lookups component_id ctx_repo absent_ok writebacks)"



section \<open>oci/__init__.py: replicate_artifact\<close>










text \<open>The media types the function distinguishes (constants of oci/model.py).\<close>

datatype media_type =
    DOCKER_MANIFEST_LIST_MIME
  | OCI_IMAGE_INDEX_MIME
  | OCI_MANIFEST_SCHEMA_V2_MIME
  | DOCKER_MANIFEST_SCHEMA_V2_MIME
  | OtherMime string




























section \<open>Concrete inputs\<close>

definition example_descriptor :: "string \<Rightarrow> definition_descriptor" where
  "example_descriptor n =
     \<lparr>pipeline_name = n, concourse_target_cfg_name = ''cc'', concourse_target_team = ''team'',
      exception = None, pipeline = ''jobs: []''\<rparr>"

text \<open>A replicator whose renderer fails on the pipeline named \<open>broken\<close> and whose
  deployer always succeeds.\<close>

definition example_replicator :: replicator where
  "example_replicator =
     \<lparr>descriptor_preprocessor = (\<lambda>d. d),
      definition_renderer =
        (\<lambda>d. if pipeline_name d = ''broken'' then Inl RuntimeError else Inr d),
      definition_deployer =
        (\<lambda>d. \<lparr>dr_definition_descriptor = d, deploy_status = SUCCEEDED, error_details = None\<rparr>)\<rparr>"

definition ok_result :: "string \<Rightarrow> deploy_result" where
  "ok_result n =
     \<lparr>dr_definition_descriptor = example_descriptor n, deploy_status = SUCCEEDED,
      error_details = None\<rparr>"

definition dup_result :: "string \<Rightarrow> deploy_result" where
  "dup_result n =
     \<lparr>dr_definition_descriptor = example_descriptor n, deploy_status = SKIPPED,
      error_details = Some (duplicate_message n)\<rparr>"

text \<open>The result for a descriptor that carries the enumeration error \<open>e\<close>, and the result
  for a descriptor whose rendering failed, as \<open>process_definition_descriptor\<close> builds them.\<close>

definition enumeration_failed_result :: "string \<Rightarrow> exc_class \<Rightarrow> deploy_result" where
  "enumeration_failed_result n e =
     \<lparr>dr_definition_descriptor = (example_descriptor n)\<lparr>exception := Some e\<rparr>,
      deploy_status = SKIPPED, error_details = Some (ExceptionObject e)\<rparr>"

definition render_failed_result :: "string \<Rightarrow> exc_class \<Rightarrow> deploy_result" where
  "render_failed_result n e =
     \<lparr>dr_definition_descriptor = example_descriptor n, deploy_status = SKIPPED,
      error_details = Some (Traceback e)\<rparr>"

text \<open>A backend that holds the pipelines \<open>foo\<close> and \<open>orphan\<close>.\<close>

definition example_world :: concourse_world where
  "example_world =
     \<lparr>pipelines_on = (\<lambda>k. if k = (''cc'', ''team'') then [''foo'', ''orphan''] else []),
      pipeline_resources = (\<lambda>k n. [''source''])\<rparr>"

definition example_processor :: result_processor where
  "example_processor = new_result_processor True True None True False"

text \<open>A backend on which every call succeeds and the pipeline is new, and one on which the
  first \<^verbatim>\<open>set_pipeline\<close> runs into the save race.\<close>

definition created_env :: deploy_env where
  "created_env =
     \<lparr>client_from_cfg_name = (\<lambda>c t. None),
      set_pipeline_outcome = (\<lambda>k. Returns SetCREATED),
      unpause_pipeline_raises = None, expose_pipeline_raises = None, random_source = 7\<rparr>"



definition created_result :: "string \<Rightarrow> deploy_result" where
  "created_result n =
     \<lparr>dr_definition_descriptor = example_descriptor n, deploy_status = SUCCEEDED OR CREATED,
      error_details = None\<rparr>"

definition unpause_all_deployer :: concourse_deployer where
  "unpause_all_deployer =
     \<lparr>unpause_pipelines = True, unpause_new_pipelines = False, expose_pipelines = True\<rparr>"

definition unpause_new_deployer :: concourse_deployer where
  "unpause_new_deployer =
     \<lparr>unpause_pipelines = False, unpause_new_pipelines = True, expose_pipelines = True\<rparr>"

text \<open>A helper for which the sender is a member of the organisation and of no team, and one
  for which the sender is in a trusted team only; a pull request event; two resources.\<close>

definition org_member_helper :: github_helper where
  "org_member_helper =
     \<lparr>is_team_member = (\<lambda>t u. False), is_org_member = (\<lambda>organisation u. True)\<rparr>"

definition team_member_helper :: github_helper where
  "team_member_helper =
     \<lparr>is_team_member = (\<lambda>t u. t = ''acme/maintainers'' \<and> u = ''alice''),
      is_org_member = (\<lambda>organisation u. False)\<rparr>"

definition example_pr_event :: pull_request_event where
  "example_pr_event =
     \<lparr>action = OPENED, number = 7, sender_login = ''alice'',
      repository_path = ''acme/widgets'', hostname = ''github.com'', label = [],
      label_names = []\<rparr>"

definition failing_resource :: pr_resource where
  "failing_resource =
     \<lparr>resource_name = ''pr'', resource_pipeline_name = ''widgets-main'',
      source_label = None, failing_to_check = True\<rparr>"

definition labelled_resource :: pr_resource where
  "labelled_resource =
     \<lparr>resource_name = ''pr'', resource_pipeline_name = ''widgets-main'',
      source_label = Some ''reviewed/ok-to-test'', failing_to_check = False\<rparr>"

text \<open>Five layers: the in-memory and the file-system cache miss with a write-back, a layer
  returns \<^verbatim>\<open>None\<close>, the delivery service raises not-found, the registry has the
  descriptor.\<close>

definition example_layers ::
  "(string \<Rightarrow> string option \<Rightarrow> (string, string) lookup_result) list" where
  "example_layers =
     [\<lambda>cid ctx. WriteBackResult ''memory'',
      \<lambda>cid ctx. WriteBackResult ''filesystem'',
      \<lambda>cid ctx. NoneResult,
      \<lambda>cid ctx. RaisesNotFound,
      \<lambda>cid ctx. Descriptor ''descriptor of acme/widgets:1.0.0'']"










section \<open>Properties\<close>


subsection \<open>Duplicate pipeline names\<close>

lemma process_names_mono:
  "process_definition_descriptor self st d = (r, st') \<Longrightarrow>
   pipeline_names st \<subseteq> pipeline_names st'"
  by (auto simp: process_definition_descriptor_def pipeline_name_conflict_def Let_def
           split: option.splits if_splits)

lemma process_conflict:
  "exception d = None \<Longrightarrow> produced_name self d \<in> pipeline_names st \<Longrightarrow>
   process_definition_descriptor self st d = (dup_skip self d, st)"
  by (simp add: process_definition_descriptor_def pipeline_name_conflict_def Let_def
        produced_name_def dup_skip_def)

lemma process_adds:
  "exception d = None \<Longrightarrow> process_definition_descriptor self st d = (r, st') \<Longrightarrow>
   produced_name self d \<in> pipeline_names st'"
  by (auto simp: process_definition_descriptor_def pipeline_name_conflict_def Let_def
        produced_name_def split: if_splits)

lemma run_duplicate:
  "replicate_run self st0 ds = (rs, st) \<Longrightarrow> j < length ds \<Longrightarrow> exception (ds ! j) = None \<Longrightarrow>
   (produced_name self (ds ! j) \<in> pipeline_names st0 \<or>
    (\<exists>i<j. exception (ds ! i) = None \<and>
            produced_name self (ds ! i) = produced_name self (ds ! j)))
   \<Longrightarrow> rs ! j = dup_skip self (ds ! j)"
proof (induction ds arbitrary: st0 rs j st)
  case Nil
  then show ?case by simp
next
  case (Cons d ds)
  obtain r st1 where p: "process_definition_descriptor self st0 d = (r, st1)"
    by (cases "process_definition_descriptor self st0 d")
  obtain rs' st2 where q: "replicate_run self st1 ds = (rs', st2)"
    by (cases "replicate_run self st1 ds")
  from Cons.prems(1) p q have rs: "rs = r # rs'" and st: "st = st2" by auto
  show ?case
  proof (cases j)
    case 0
    with Cons.prems have "produced_name self d \<in> pipeline_names st0" "exception d = None"
      by auto
    then have "r = dup_skip self d" using process_conflict p by fastforce
    with 0 rs show ?thesis by simp
  next
    case (Suc j')
    have mono: "pipeline_names st0 \<subseteq> pipeline_names st1"
      using process_names_mono p by blast
    have "produced_name self (ds ! j') \<in> pipeline_names st1 \<or>
      (\<exists>i<j'. exception (ds ! i) = None \<and>
               produced_name self (ds ! i) = produced_name self (ds ! j'))"
    proof -
      from Cons.prems(4) Suc consider
        (a) "produced_name self (ds ! j') \<in> pipeline_names st0"
        | (b) i where "i < Suc j'" "exception ((d # ds) ! i) = None"
              "produced_name self ((d # ds) ! i) = produced_name self (ds ! j')"
        by auto
      then show ?thesis
      proof cases
        case a
        then show ?thesis using mono by blast
      next
        case b
        show ?thesis
        proof (cases i)
          case 0
          with b have "exception d = None"
            "produced_name self d = produced_name self (ds ! j')" by auto
          then show ?thesis using process_adds p by metis
        next
          case (Suc i')
          with b show ?thesis by auto
        qed
      qed
    qed
    moreover have "j' < length ds" "exception (ds ! j') = None" using Cons.prems Suc by auto
    ultimately have "rs' ! j' = dup_skip self (ds ! j')" using Cons.IH q by blast
    with Suc rs show ?thesis by simp
  qed
qed

lemma process_inv:
  "deploy_inv st \<Longrightarrow> process_definition_descriptor self st d = (r, st') \<Longrightarrow> deploy_inv st'"
  by (auto simp: deploy_inv_def process_definition_descriptor_def pipeline_name_conflict_def
           Let_def split: option.splits if_splits)

lemma run_inv:
  "deploy_inv st \<Longrightarrow> replicate_run self st ds = (rs, st') \<Longrightarrow> deploy_inv st'"
proof (induction ds arbitrary: st rs)
  case Nil
  then show ?case by simp
next
  case (Cons d ds)
  then show ?case by (auto split: prod.splits dest: process_inv)
qed

lemma distinct_count_le1:
  "distinct (map f xs) \<Longrightarrow> length (filter (\<lambda>x. f x = n) xs) \<le> 1"
  by (induction xs) (auto simp: image_iff filter_empty_conv)

lemma example_run_foo:
  "replicate_run example_replicator initial_state
      [example_descriptor ''foo'', example_descriptor ''foo''] =
    ([ok_result ''foo'', dup_result ''foo''],
     \<lparr>pipeline_names = {''foo''}, deploy_calls = [example_descriptor ''foo'']\<rparr>)"
  by (simp add: process_definition_descriptor_def pipeline_name_conflict_def render_def
      example_replicator_def example_descriptor_def initial_state_def duplicate_message_def
      ok_result_def dup_result_def Let_def)

text \<open>
  C5. In a run that starts with no accepted name, let the descriptors be listed in the order
  in which they pass the locked duplicate check. If two of them, neither carrying an
  enumeration error, produce the same pipeline name, the later one yields the SKIPPED result
  whose error details are exactly \<open>duplicate pipeline name: <name>\<close>; and for every name
  at most one descriptor is handed to the deployer. The check and the insertion are one
  step on the name set: \<open>pipeline_name_conflict\<close> returns the verdict and the new set
  together.
\<close>

theorem duplicate_pipeline_name_is_skipped:
  assumes "replicate_run self initial_state ds = (rs, st)"
    and "i < j" and "j < length ds"
    and "exception (ds ! i) = None" and "exception (ds ! j) = None"
    and "produced_name self (ds ! i) = produced_name self (ds ! j)"
  shows "rs ! j =
           \<lparr>dr_definition_descriptor = ds ! j, deploy_status = SKIPPED,
            error_details =
              Some (Message (''duplicate pipeline name: '' @ produced_name self (ds ! j)))\<rparr>
       \<and> length (filter (\<lambda>d. pipeline_name d = n) (deploy_calls st)) \<le> 1
       \<and> pipeline_name_conflict names d =
           (pipeline_name d \<in> names, insert (pipeline_name d) names)"
proof (intro conjI)
  have "rs ! j = dup_skip self (ds ! j)"
    using run_duplicate [OF assms(1) assms(3) assms(5)] assms(2,4,6) by blast
  then show "rs ! j =
           \<lparr>dr_definition_descriptor = ds ! j, deploy_status = SKIPPED,
            error_details =
              Some (Message (''duplicate pipeline name: '' @ produced_name self (ds ! j)))\<rparr>"
    by (simp add: dup_skip_def duplicate_message_def)
  have "deploy_inv initial_state" by (simp add: deploy_inv_def initial_state_def)
  then have "deploy_inv st" using run_inv assms(1) by blast
  then have "distinct (map pipeline_name (deploy_calls st))" by (simp add: deploy_inv_def)
  then show "length (filter (\<lambda>d. pipeline_name d = n) (deploy_calls st)) \<le> 1"
    by (rule distinct_count_le1)
  show "pipeline_name_conflict names d =
           (pipeline_name d \<in> names, insert (pipeline_name d) names)"
    by (auto simp: pipeline_name_conflict_def)
qed

theorem duplicate_pipeline_name_is_skipped_witness:
  "[ok_result ''foo'', dup_result ''foo''] ! 1 =
      \<lparr>dr_definition_descriptor = example_descriptor ''foo'', deploy_status = SKIPPED,
       error_details = Some (Message ''duplicate pipeline name: foo'')\<rparr>
   \<and> length (filter (\<lambda>d. pipeline_name d = ''foo'') [example_descriptor ''foo'']) \<le> 1"
  using duplicate_pipeline_name_is_skipped
          [OF example_run_foo, of 0 1 "''foo''" "{}" "example_descriptor ''foo''"]
  by (simp add: produced_name_def example_replicator_def example_descriptor_def render_def)

subsection \<open>A descriptor whose rendering failed\<close>

lemma example_run_broken:
  "replicate_run example_replicator initial_state
      [example_descriptor ''broken'', example_descriptor ''broken''] =
    ([render_failed_result ''broken'' RuntimeError, dup_result ''broken''],
     \<lparr>pipeline_names = {''broken''}, deploy_calls = []\<rparr>)"
  by (simp add: process_definition_descriptor_def pipeline_name_conflict_def render_def
      example_replicator_def example_descriptor_def initial_state_def duplicate_message_def
      render_failed_result_def dup_result_def Let_def)

text \<open>
  C10. Let the rendering of a descriptor (one without an enumeration error) fail with \<open>e\<close>;
  the name it produces is then the preprocessed descriptor's. If that name is not accepted
  yet, the result is the SKIPPED result with the render error, the name is inserted into the
  accepted set and nothing is deployed; a later descriptor producing the same name is
  then the duplicate SKIPPED result, with the deploy log unchanged. If the name is
  accepted already, the render-failed descriptor is itself reported as the duplicate
  SKIPPED result, not with its render error.
\<close>

theorem render_failed_name_is_accepted:
  assumes "exception d = None"
    and "definition_renderer self (descriptor_preprocessor self d) = Inl e"
  shows "(pipeline_name (descriptor_preprocessor self d) \<notin> pipeline_names st \<longrightarrow>
            process_definition_descriptor self st d =
              (\<lparr>dr_definition_descriptor = d, deploy_status = SKIPPED,
                error_details = Some (Traceback e)\<rparr>,
               st\<lparr>pipeline_names :=
                    insert (pipeline_name (descriptor_preprocessor self d)) (pipeline_names st)\<rparr>))
       \<and> (exception d' = None \<and>
          produced_name self d' = pipeline_name (descriptor_preprocessor self d) \<longrightarrow>
            process_definition_descriptor self
                (snd (process_definition_descriptor self st d)) d' =
              (\<lparr>dr_definition_descriptor = d', deploy_status = SKIPPED,
                error_details =
                  Some (Message (''duplicate pipeline name: '' @ produced_name self d'))\<rparr>,
               snd (process_definition_descriptor self st d))
          \<and> deploy_calls (snd (process_definition_descriptor self st d)) = deploy_calls st)
       \<and> (pipeline_name (descriptor_preprocessor self d) \<in> pipeline_names st \<longrightarrow>
            process_definition_descriptor self st d =
              (\<lparr>dr_definition_descriptor = d, deploy_status = SKIPPED,
                error_details =
                  Some (Message (''duplicate pipeline name: ''
                                   @ pipeline_name (descriptor_preprocessor self d)))\<rparr>,
               st))"
proof -
  have name: "produced_name self d = pipeline_name (descriptor_preprocessor self d)"
    using assms(2) by (simp add: produced_name_def render_def)
  obtain r st1 where p: "process_definition_descriptor self st d = (r, st1)"
    by (cases "process_definition_descriptor self st d")
  have acc: "produced_name self d \<in> pipeline_names st1"
    using process_adds [OF assms(1) p] .
  have log: "deploy_calls st1 = deploy_calls st"
    using p assms
    by (auto simp: process_definition_descriptor_def pipeline_name_conflict_def render_def
          Let_def split: if_splits)
  have later: "exception d' = None \<Longrightarrow> produced_name self d' = produced_name self d \<Longrightarrow>
      process_definition_descriptor self st1 d' = (dup_skip self d', st1)"
    using process_conflict [of d' self st1] acc by simp
  show ?thesis
    using assms name p log later
    by (auto simp: process_definition_descriptor_def pipeline_name_conflict_def render_def
          Let_def dup_skip_def duplicate_message_def)
qed

theorem render_failed_name_is_accepted_witness:
  "process_definition_descriptor example_replicator initial_state (example_descriptor ''broken'') =
     (render_failed_result ''broken'' RuntimeError,
      \<lparr>pipeline_names = {''broken''}, deploy_calls = []\<rparr>)
   \<and> process_definition_descriptor example_replicator
        \<lparr>pipeline_names = {''broken''}, deploy_calls = []\<rparr> (example_descriptor ''broken'') =
     (dup_result ''broken'', \<lparr>pipeline_names = {''broken''}, deploy_calls = []\<rparr>)"
proof -
  have a: "exception (example_descriptor ''broken'') = None"
    by (simp add: example_descriptor_def)
  have b: "definition_renderer example_replicator
             (descriptor_preprocessor example_replicator (example_descriptor ''broken'')) =
           Inl RuntimeError"
    by (simp add: example_replicator_def example_descriptor_def)
  have c: "pipeline_name (descriptor_preprocessor example_replicator
             (example_descriptor ''broken'')) = ''broken''"
    by (simp add: example_replicator_def example_descriptor_def)
  have n: "produced_name example_replicator (example_descriptor ''broken'') = ''broken''"
    by (simp add: produced_name_def render_def example_replicator_def example_descriptor_def)
  have first: "process_definition_descriptor example_replicator initial_state
       (example_descriptor ''broken'') =
     (render_failed_result ''broken'' RuntimeError,
      \<lparr>pipeline_names = {''broken''}, deploy_calls = []\<rparr>)"
    using render_failed_name_is_accepted
            [OF a b, of initial_state "example_descriptor ''broken''"] c
    by (simp add: initial_state_def render_failed_result_def)
  have second: "process_definition_descriptor example_replicator
        \<lparr>pipeline_names = {''broken''}, deploy_calls = []\<rparr> (example_descriptor ''broken'') =
     (dup_result ''broken'', \<lparr>pipeline_names = {''broken''}, deploy_calls = []\<rparr>)"
    using render_failed_name_is_accepted
            [OF a b, of initial_state "example_descriptor ''broken''"] a c n first
    by (simp add: dup_result_def duplicate_message_def)
  from first second show ?thesis by simp
qed


subsection \<open>The deployer\<close>

lemma status_bits [simp]:
  "SUCCEEDED AND SUCCEEDED = 1" "FAILED AND SUCCEEDED = 0" "SKIPPED AND SUCCEEDED = 0"
  "(SUCCEEDED OR CREATED) AND SUCCEEDED = 1" "(SUCCEEDED OR CREATED) AND CREATED = 8"
  "SUCCEEDED AND CREATED = 0" "FAILED AND CREATED = 0" "SKIPPED AND CREATED = 0"
  by (simp_all add: SUCCEEDED_def FAILED_def SKIPPED_def CREATED_def)

lemma not_created_failed [simp]: "\<not> created_bit (failed_result d e)"
  by (simp add: created_bit_def failed_result_def)


lemma finish_deploy_created:
  "created_bit (fst (finish_deploy self env d response calls)) \<Longrightarrow>
     (UnpausePipeline n \<in> set (snd (finish_deploy self env d response calls)) \<longleftrightarrow>
      UnpausePipeline n \<in> set calls \<or>
      (n = pipeline_name d \<and> (unpause_pipelines self \<or> unpause_new_pipelines self)))"
  by (cases "unpause_pipelines self"; cases "unpause_new_pipelines self";
      cases "expose_pipelines self"; cases response;
      cases "unpause_pipeline_raises env"; cases "expose_pipeline_raises env")
     (auto simp add: finish_deploy_def Let_def created_bit_def failed_result_def)

lemma deploy_created_unpause:
  assumes "created_bit (fst (deploy self env d))"
  shows "UnpausePipeline (pipeline_name d) \<in> set (snd (deploy self env d)) \<longleftrightarrow>
         unpause_pipelines self \<or> unpause_new_pipelines self"
proof (cases "client_from_cfg_name env (concourse_target_cfg_name d) (concourse_target_team d)")
  case (Some e)
  with assms show ?thesis by (simp add: deploy_def Let_def)
next
  case None
  show ?thesis
  proof (cases "set_pipeline_outcome env 0")
    case (Returns response)
    with None assms show ?thesis
      by (simp add: deploy_def Let_def finish_deploy_created)
  next
    case (Raises e)
    with None assms show ?thesis by (simp add: deploy_def Let_def)
  next
    case (RaisesHTTPError status_code content)
    show ?thesis
    proof (cases "status_code = 500 \<and> content = err_content")
      case False
      with None RaisesHTTPError assms show ?thesis by (auto simp add: deploy_def Let_def)
    next
      case True
      show ?thesis
      proof (cases "set_pipeline_outcome env 1")
        case (Returns response)
        with None RaisesHTTPError True assms show ?thesis
          by (simp add: deploy_def Let_def finish_deploy_created)
      next
        case (Raises e)
        with None RaisesHTTPError True assms show ?thesis by (simp add: deploy_def Let_def)
      next
        case (RaisesHTTPError s c)
        with None \<open>set_pipeline_outcome env 0 = RaisesHTTPError status_code content\<close> True assms
        show ?thesis by (simp add: deploy_def Let_def)
      qed
    qed
  qed
qed

lemma init_unpause:
  "UnpausePipeline n \<in> set (initialise_new_pipeline_resources rp resources results) \<longleftrightarrow>
     rp_unpause_new_pipelines rp \<and> (\<exists>r \<in> set results. created_bit r \<and> result_name r = n)"
  by (auto simp: initialise_new_pipeline_resources_def Let_def)


lemma deploy_created_env:
  "deploy self created_env (example_descriptor ''foo'') =
     finish_deploy self created_env (example_descriptor ''foo'') SetCREATED
       [SetPipeline ''foo'' ''jobs: []'']"
  by (simp add: deploy_def created_env_def example_descriptor_def Let_def)

text \<open>
  C3, as the claim states it, fails: with \<open>unpause_pipelines\<close> set and
  \<open>unpause_new_pipelines\<close> not set, the deployer unpauses a pipeline it has just created.
\<close>

theorem created_pipeline_unpaused_without_unpause_new:
  "created_bit (fst (deploy unpause_all_deployer created_env (example_descriptor ''foo'')))
   \<and> \<not> unpause_new_pipelines unpause_all_deployer
   \<and> UnpausePipeline ''foo''
       \<in> set (snd (deploy unpause_all_deployer created_env (example_descriptor ''foo'')))"
  unfolding deploy_created_env
  by (simp add: finish_deploy_def unpause_all_deployer_def created_env_def
      example_descriptor_def created_bit_def Let_def)

text \<open>
  C3, amended. After a deploy whose result carries the CREATED bit, the deployer has unpaused
  the pipeline exactly when \<open>unpause_pipelines\<close> or \<open>unpause_new_pipelines\<close> is true. The
  result processor, when it initialises the resources of the new pipelines, unpauses a pipeline
  whose result carries the CREATED bit exactly when its own \<open>unpause_new_pipelines\<close> is
  true; \<open>unpause_pipelines\<close> is not consulted there.
\<close>

theorem created_pipeline_is_unpaused:
  "(created_bit (fst (deploy self env d)) \<longrightarrow>
      (UnpausePipeline (pipeline_name d) \<in> set (snd (deploy self env d)) \<longleftrightarrow>
       unpause_pipelines self \<or> unpause_new_pipelines self))
   \<and> (r \<in> set results \<and> created_bit r \<longrightarrow>
      (UnpausePipeline (result_name r)
         \<in> set (initialise_new_pipeline_resources rp resources results) \<longleftrightarrow>
       rp_unpause_new_pipelines rp))"
  using deploy_created_unpause [of self env d] init_unpause [of "result_name r" rp resources results]
  by blast

theorem created_pipeline_is_unpaused_witness:
  "UnpausePipeline ''foo''
     \<in> set (snd (deploy unpause_new_deployer created_env (example_descriptor ''foo'')))
   \<and> UnpausePipeline ''foo''
     \<in> set (initialise_new_pipeline_resources example_processor (\<lambda>n. [''source''])
              [created_result ''foo''])"
proof -
  have c: "created_bit (fst (deploy unpause_new_deployer created_env (example_descriptor ''foo'')))"
    unfolding deploy_created_env
    by (simp add: finish_deploy_def unpause_new_deployer_def created_env_def
        created_bit_def Let_def)
  have r: "created_bit (created_result ''foo'')"
    by (simp add: created_result_def created_bit_def)
  show ?thesis
    using created_pipeline_is_unpaused
            [of unpause_new_deployer created_env "example_descriptor ''foo''"
                "created_result ''foo''" "[created_result ''foo'']" example_processor
                "\<lambda>n. [''source'']"] c r
    by (simp add: unpause_new_deployer_def example_processor_def new_result_processor_def
        example_descriptor_def result_name_def created_result_def)
qed



subsection \<open>Cleanup in process_results\<close>

lemma set_pipelines_to_remove:
  "n \<in> set (pipelines_to_remove self existing rs) \<longleftrightarrow>
     n \<in> set existing \<and> n \<notin> result_name ` set rs \<and>
     (case remove_pipelines_filter self of None \<Rightarrow> True | Some f \<Rightarrow> \<not> f n)"
  by (auto simp: pipelines_to_remove_def Let_def split: option.splits)

lemma init_no_delete:
  "DeletePipeline n \<notin> set (initialise_new_pipeline_resources self resources rs)"
  by (auto simp: initialise_new_pipeline_resources_def Let_def)

lemma process_target_deletes:
  "DeletePipeline n \<in> set (snd (process_target self w k rs)) \<longleftrightarrow>
     remove_pipelines self \<and> n \<in> set (pipelines_to_remove self (pipelines_on w k) rs)"
  by (auto simp: process_target_def Let_def init_no_delete)

lemma process_target_frame:
  "k' \<noteq> k \<Longrightarrow> pipelines_on (fst (process_target self w k rs)) k' = pipelines_on w k'"
  by (simp add: process_target_def Let_def)

lemma process_targets_deletes:
  "distinct ks \<Longrightarrow>
   (k, DeletePipeline n) \<in> set (snd (process_targets self w results ks)) \<longleftrightarrow>
     k \<in> set ks \<and> remove_pipelines self \<and>
     n \<in> set (pipelines_to_remove self (pipelines_on w k)
                 (filter (\<lambda>r. result_key r = k) results))"
proof (induction ks arbitrary: w)
  case Nil
  then show ?case by simp
next
  case (Cons k0 ks)
  obtain w' cs where
    p: "process_target self w k0 (filter (\<lambda>r. result_key r = k0) results) = (w', cs)"
    by (cases "process_target self w k0 (filter (\<lambda>r. result_key r = k0) results)")
  obtain w'' cs' where q: "process_targets self w' results ks = (w'', cs')"
    by (cases "process_targets self w' results ks")
  have calls: "snd (process_targets self w results (k0 # ks)) = map (Pair k0) cs @ cs'"
    using p q by simp
  have ih: "(k, DeletePipeline n) \<in> set cs' \<longleftrightarrow>
     k \<in> set ks \<and> remove_pipelines self \<and>
     n \<in> set (pipelines_to_remove self (pipelines_on w' k)
                 (filter (\<lambda>r. result_key r = k) results))"
    using Cons.IH [of w'] Cons.prems q by simp
  have head: "(k, DeletePipeline n) \<in> set (map (Pair k0) cs) \<longleftrightarrow>
     k = k0 \<and> remove_pipelines self \<and>
     n \<in> set (pipelines_to_remove self (pipelines_on w k0)
                 (filter (\<lambda>r. result_key r = k0) results))"
    using process_target_deletes [of n self w k0 "filter (\<lambda>r. result_key r = k0) results"] p
    by auto
  have frame: "k \<in> set ks \<Longrightarrow> pipelines_on w' k = pipelines_on w k"
    using process_target_frame [of k k0 self w "filter (\<lambda>r. result_key r = k0) results"]
      p Cons.prems by auto
  show ?case
    unfolding calls using ih head frame Cons.prems by auto
qed

lemma failed_or_skipped_not_succeeded:
  "deploy_status r = FAILED \<or> deploy_status r = SKIPPED \<Longrightarrow> \<not> succeeded_bit r"
  by (auto simp: succeeded_bit_def)

lemma target_keys_set: "set (target_keys results) = result_key ` set results"
  by (simp add: target_keys_def)

lemma target_keys_distinct: "distinct (target_keys results)"
  by (simp add: target_keys_def)

lemma api_calls_process_results:
  "api_calls (process_results self notify w results) =
     snd (process_targets
            (if \<exists>r \<in> set results. \<not> succeeded_bit r
             then self\<lparr>remove_pipelines := False\<rparr> else self)
            w results (target_keys results))"
proof -
  have "(0 < length (filter (\<lambda>d. \<not> (deploy_status d AND SUCCEEDED \<noteq> 0)) results)) =
        (\<exists>r \<in> set results. \<not> succeeded_bit r)"
    by (auto simp: succeeded_bit_def filter_empty_conv)
  then show ?thesis
    by (simp add: process_results_def Let_def split: prod.splits)
qed

lemma example_keys:
  "result_key (ok_result n) = (''cc'', ''team'')"
  "result_key (dup_result n) = (''cc'', ''team'')"
  "result_name (ok_result n) = n" "result_name (dup_result n) = n"
  "succeeded_bit (ok_result n)" "\<not> succeeded_bit (dup_result n)"
  by (simp_all add: result_key_def result_name_def concourse_target_key_def ok_result_def
      dup_result_def example_descriptor_def succeeded_bit_def SUCCEEDED_def SKIPPED_def)

text \<open>
  C1, as the claim states it, fails: in a run whose only result without the SUCCEEDED bit is
  a duplicate-name SKIPPED result, the pipeline \<open>orphan\<close> exists on the backend, was not
  deployed, and is not deleted; the only call made on the backend reorders the pipelines.
\<close>

theorem duplicate_skip_suppresses_cleanup:
  "api_calls (process_results example_processor (\<lambda>r. True) example_world
       [ok_result ''foo'', dup_result ''foo'']) =
     [((''cc'', ''team''), OrderPipelines [''foo'', ''orphan''])]
   \<and> remove_pipelines example_processor
   \<and> ''orphan'' \<in> set (pipelines_on example_world (''cc'', ''team''))
   \<and> ''orphan'' \<notin> set (map result_name [ok_result ''foo'', dup_result ''foo''])"
proof -
  have keys: "target_keys [ok_result ''foo'', dup_result ''foo''] = [(''cc'', ''team'')]"
    by (simp add: target_keys_def example_keys)
  have created: "\<not> created_bit (ok_result ''foo'')" "\<not> created_bit (dup_result ''foo'')"
    by (simp_all add: created_bit_def ok_result_def dup_result_def)
  have "api_calls (process_results example_processor (\<lambda>r. True) example_world
       [ok_result ''foo'', dup_result ''foo'']) =
     [((''cc'', ''team''), OrderPipelines [''foo'', ''orphan''])]"
    by (simp add: api_calls_process_results keys example_keys created process_target_def
        initialise_new_pipeline_resources_def example_processor_def
        new_result_processor_def example_world_def Let_def)
  then show ?thesis
    by (simp add: example_keys example_processor_def new_result_processor_def
        example_world_def)
qed

text \<open>
  C1, amended. If a replication run contains any result without the SUCCEEDED bit (a FAILED
  result, or a SKIPPED one, a duplicate-name SKIPPED result included), no pipeline is deleted
  from any backend. If every result carries the SUCCEEDED bit and removing pipelines is
  enabled, the pipelines deleted from a backend the run deployed to are exactly those that
  exist on it, are not among the names of the run's results for that backend, and are not
  protected by the filter.
\<close>

theorem cleanup_gated_by_unsuccessful_results:
  "((\<exists>r \<in> set results. \<not> succeeded_bit r) \<longrightarrow>
      (k, DeletePipeline n) \<notin> set (api_calls (process_results self notify w results)))
   \<and> ((\<forall>r \<in> set results. succeeded_bit r) \<and> remove_pipelines self \<longrightarrow>
      ((k, DeletePipeline n) \<in> set (api_calls (process_results self notify w results)) \<longleftrightarrow>
       k \<in> result_key ` set results \<and> n \<in> set (pipelines_on w k) \<and>
       n \<notin> set (map result_name (filter (\<lambda>r. result_key r = k) results)) \<and>
       (case remove_pipelines_filter self of None \<Rightarrow> True | Some f \<Rightarrow> \<not> f n)))"
  by (simp add: api_calls_process_results process_targets_deletes target_keys_distinct
      target_keys_set set_pipelines_to_remove)

theorem cleanup_gated_by_unsuccessful_results_witness:
  "((''cc'', ''team''), DeletePipeline ''orphan'')
     \<in> set (api_calls (process_results example_processor (\<lambda>r. True) example_world
               [ok_result ''foo'']))
   \<and> ((''cc'', ''team''), DeletePipeline ''orphan'')
     \<notin> set (api_calls (process_results example_processor (\<lambda>r. True) example_world
               [ok_result ''foo'', dup_result ''foo'']))"
  using cleanup_gated_by_unsuccessful_results
          [of "[ok_result ''foo'']" "(''cc'', ''team'')" "''orphan''" example_processor
              "\<lambda>r. True" example_world]
        cleanup_gated_by_unsuccessful_results
          [of "[ok_result ''foo'', dup_result ''foo'']" "(''cc'', ''team'')" "''orphan''"
              example_processor "\<lambda>r. True" example_world]
  by (simp add: example_keys example_processor_def new_result_processor_def example_world_def)

subsection \<open>Notification of pipeline owners\<close>

lemma should_notify_iff:
  "should_notify_pipeline_owners r \<longleftrightarrow>
     \<not> succeeded_bit r \<and>
     (\<forall>c. exception (dr_definition_descriptor r) = Some c \<longrightarrow> c \<notin> set ignore_exceptions)"
  by (auto simp: should_notify_pipeline_owners_def succeeded_bit_def split: option.splits)

text \<open>
  C6. Evaluating the code on two failed results: the first carries the enumeration error
  \<^verbatim>\<open>OSError\<close>, which is in the ignored set; the second is a render failure, for which the
  owners are to be notified. Formatting the log line for the first raises
  \<^verbatim>\<open>AttributeError\<close>, so \<^verbatim>\<open>process_results\<close> raises and no notification is attempted
  for the second.
\<close>

theorem notification_loop_aborts_on_ignored_failure:
  "returned (process_results example_processor (\<lambda>r. True) example_world
       [enumeration_failed_result ''a'' OSError, render_failed_result ''b'' RuntimeError]) =
     Inl AttributeError
   \<and> notified (process_results example_processor (\<lambda>r. True) example_world
       [enumeration_failed_result ''a'' OSError, render_failed_result ''b'' RuntimeError]) = []
   \<and> should_notify_pipeline_owners (render_failed_result ''b'' RuntimeError)"
  by (simp add: process_results_def should_notify_pipeline_owners_def ignore_exceptions_def
      enumeration_failed_result_def render_failed_result_def example_descriptor_def Let_def
      split: prod.splits)

subsection \<open>The label policy\<close>

lemma should_label_policy:
  assumes "iter_trusted_teams_for_hostname job_mapping_trusted_teams github_hostname = Inr teams"
  shows "should_label job_mapping_trusted_teams helper sender owner github_hostname =
     Inr (if teams \<noteq> [] then (\<exists>team \<in> set teams. is_team_member helper team sender)
          else is_org_member helper owner sender)"
  using assms by (simp add: should_label_def list_ex_iff)

lemma set_pr_labels_sound:
  assumes "action ev = OPENED \<or> action ev = SYNCHRONIZE"
      and "split_on CHR ''/'' (repository_path ev) = [owner, repo_name]"
      and "find_job_mapping jms = Inr jm"
      and "should_label jm helper (sender_login ev) owner (hostname ev) \<noteq> Inr True"
  shows "filter is_add_labels (snd (set_pr_labels ev helper jms resources)) = []"
  using assms
  by (auto simp: set_pr_labels_def Let_def is_add_labels_def split: sum.splits bool.splits)

text \<open>
  C4, as the claim states it, fails: a trusted team is declared and matches, the sender is
  a member of the owning organisation and of no trusted team, and the policy denies; the
  claim's second clause allows in that case.
\<close>

theorem org_member_outside_trusted_teams_is_denied:
  "iter_trusted_teams_for_hostname [''acme/maintainers''] ''github.com'' =
     Inr [''acme/maintainers'']
   \<and> is_org_member org_member_helper ''acme'' ''alice''
   \<and> \<not> is_team_member org_member_helper ''acme/maintainers'' ''alice''
   \<and> should_label [''acme/maintainers''] org_member_helper ''alice'' ''acme'' ''github.com'' =
     Inr False"
  by (simp add: should_label_def org_member_helper_def)

text \<open>
  C4, amended. Let \<open>teams\<close> be the trusted teams of the job mapping that remain after the
  host filter (every entry well-formed). If there is at least one, labels may be auto-applied
  exactly when the sender is a member of one of them; membership of the organisation is not
  consulted. If there is none, labels may be auto-applied exactly when the sender is a member
  of the repository's owning organisation. And when a pull request is opened or synchronised
  and the policy does not allow, \<open>set_pr_labels\<close> applies no label.
\<close>

theorem label_policy_decision:
  "(iter_trusted_teams_for_hostname job_mapping_trusted_teams github_hostname = Inr teams \<longrightarrow>
      should_label job_mapping_trusted_teams helper sender owner github_hostname =
        Inr (if teams \<noteq> [] then (\<exists>team \<in> set teams. is_team_member helper team sender)
             else is_org_member helper owner sender))
   \<and> ((action ev = OPENED \<or> action ev = SYNCHRONIZE)
       \<and> split_on CHR ''/'' (repository_path ev) = [repo_owner, repo_name]
       \<and> find_job_mapping jms = Inr jm
       \<and> should_label jm helper' (sender_login ev) repo_owner (hostname ev) \<noteq> Inr True \<longrightarrow>
      filter is_add_labels (snd (set_pr_labels ev helper' jms resources)) = [])"
  using should_label_policy [of job_mapping_trusted_teams github_hostname teams helper sender owner]
        set_pr_labels_sound [of ev repo_owner repo_name jms jm helper' resources]
  by blast

theorem label_policy_decision_witness:
  "should_label [''acme/maintainers'', ''ghe.example/acme/core''] team_member_helper
      ''alice'' ''acme'' ''github.com'' = Inr True
   \<and> filter is_add_labels
       (snd (set_pr_labels example_pr_event org_member_helper [Some [''acme/maintainers'']]
               [labelled_resource])) = []"
proof -
  have teams: "iter_trusted_teams_for_hostname [''acme/maintainers'', ''ghe.example/acme/core'']
      ''github.com'' = Inr [''acme/maintainers'']"
    by simp
  have denied: "should_label [''acme/maintainers''] org_member_helper
      (sender_login example_pr_event) ''acme'' (hostname example_pr_event) \<noteq> Inr True"
    by (simp add: should_label_def org_member_helper_def)
  have path: "split_on CHR ''/'' (repository_path example_pr_event) = [''acme'', ''widgets'']"
    by (simp add: example_pr_event_def)
  have opened: "action example_pr_event = OPENED" by (simp add: example_pr_event_def)
  have jm: "find_job_mapping [Some [''acme/maintainers'']] = Inr [''acme/maintainers'']"
    by simp
  show ?thesis
    using label_policy_decision
            [of "[''acme/maintainers'', ''ghe.example/acme/core'']" "''github.com''"
                "[''acme/maintainers'']" team_member_helper "''alice''" "''acme''"
                example_pr_event "''acme''" "''widgets''" "[Some [''acme/maintainers'']]"
                "[''acme/maintainers'']" org_member_helper "[labelled_resource]"]
          teams denied path opened jm
    by (simp add: team_member_helper_def)
qed

subsection \<open>ensure_pr_resource_updates\<close>

lemma ensure_never_returns_while_failing:
  "\<not> has_returned (ensure_pr_resource_updates fuel rv ev t
         [r\<lparr>failing_to_check := True\<rparr>] retries s)
   \<and> iterations (ensure_pr_resource_updates fuel rv ev t
         [r\<lparr>failing_to_check := True\<rparr>] retries s) = fuel"
proof (induction fuel arbitrary: t retries s)
  case 0
  show ?case by (simp add: has_returned_def iterations_def events_of_def)
next
  case (Suc fuel)
  let ?rec = "ensure_pr_resource_updates fuel rv ev (Suc t)
                [r\<lparr>failing_to_check := True\<rparr>] (retries - 1) (s * (6 / 5))"
  from Suc [of "Suc t" "retries - 1" "s * (6 / 5)"]
  show ?case
    by (cases ?rec)
       (auto simp add: has_returned_def iterations_def events_of_def Let_def is_sleep_for_def)
qed

text \<open>
  C2. Evaluating the code on one resource that is failing to check, with a backend that
  never lists the pull request. With the default \<open>retries = 10\<close> (and for any number of
  invocations followed, here 11) the run has not returned and has polled 11 times. With
  \<open>retries = 0\<close> the first invocation logs that it gives up and then triggers a check and
  recurses, and so does the second.
\<close>

theorem ensure_pr_resource_updates_goes_on_after_giving_up:
  "iterations (ensure_pr_resource_updates 11 (\<lambda>t r. []) example_pr_event 0
       [failing_resource] 10 3) = 11
   \<and> \<not> has_returned (ensure_pr_resource_updates 11 (\<lambda>t r. []) example_pr_event 0
       [failing_resource] 10 3)
   \<and> ensure_pr_resource_updates 2 (\<lambda>t r. []) example_pr_event 0 [failing_resource] 0 3 =
     OutOfFuel [SleepFor 3, GivingUp [''pr''], TriggerCheck [''pr''],
                SleepFor (18 / 5), GivingUp [''pr''], TriggerCheck [''pr'']]"
proof -
  have f: "failing_resource\<lparr>failing_to_check := True\<rparr> = failing_resource"
    by (simp add: failing_resource_def)
  have "ensure_pr_resource_updates 2 (\<lambda>t r. []) example_pr_event 0 [failing_resource] 0 3 =
     OutOfFuel [SleepFor 3, GivingUp [''pr''], TriggerCheck [''pr''],
                SleepFor (18 / 5), GivingUp [''pr''], TriggerCheck [''pr'']]"
    by (simp add: numeral_2_eq_2 failing_resource_def Let_def)
  then show ?thesis
    using ensure_never_returns_while_failing
            [of 11 "\<lambda>t r. []" example_pr_event 0 failing_resource 10 3] f
    by simp
qed

subsection \<open>The composite lookup\<close>






text \<open>Where a write-back raises, the lookup raises and the write-backs collected after it
  are not invoked.\<close>

lemma composite_lookup_writeback_raises:
  "composite_lookup (\<lambda>wb cid cd. if wb = ''memory'' then Some ValueError else None)
      example_layers ''acme/widgets:1.0.0'' (Some ''registry.example/ocm'') False [] =
     (Raised ValueError,
      [(''memory'', ''acme/widgets:1.0.0'', ''descriptor of acme/widgets:1.0.0'')])"
  by (simp add: example_layers_def)

subsection \<open>Verbatim replication of an OCI manifest\<close>












end
